theory Spec2Isabelle
  imports Main "HOL-Library.Multiset" "HOL-Library.Code_Target_Numeral"
begin

section \<open>BeReal: cards, arithmetic and the game state of \<open>src/App.tsx\<close>\<close>

text \<open>
  The game is one React component. Its state variables (\<open>useState\<close>) become the fields of
  the record \<open>game\<close>; every event handler becomes a function from the state the handler's
  closure sees to the state after all its \<open>set...\<close> calls are applied.
\<close>

subsection \<open>JavaScript numbers\<close>

text \<open>
  The coefficients of the cards are JavaScript numbers, that is IEEE 754 doubles. They start
  as integers between \<open>-5\<close> and \<open>5\<close> and are only ever negated, added, subtracted and
  multiplied, so a coefficient is an integer, an infinity or \<open>NaN\<close>, never a fraction.
  Negative zero is identified with zero: the source compares numbers with \<open>===\<close> only, which
  does not tell the two apart, and never divides.
\<close>

datatype number = Fin int | PInf | NInf | NaN

text \<open>The number of binary digits of a natural number.\<close>

fun bitlen :: "nat \<Rightarrow> nat" where
  "bitlen n = (if n = 0 then 0 else Suc (bitlen (n div 2)))"

declare bitlen.simps [simp del]

text \<open>
  The double nearest to an integer: the integer itself when it has at most 53 binary
  digits; otherwise its leading 53 digits, rounded to nearest with ties to the even
  significand, and an infinity when that reaches \<open>2^1024\<close>.
\<close>

definition to_double :: "int \<Rightarrow> number" where
  "to_double z =
     (let m = nat \<bar>z\<bar>; e = bitlen m in
      if e \<le> 53 then Fin z
      else
       (let q = 2 ^ (e - 53);
            k = m div q;
            r = m mod q;
            k' = (if q < 2 * r \<or> (2 * r = q \<and> odd k) then k + 1 else k);
            v = k' * q
        in if 2 ^ 1024 \<le> v then (if z < 0 then NInf else PInf)
           else Fin (if z < 0 then - int v else int v)))"

text \<open>Unary minus, \<open>+\<close>, \<open>-\<close> and \<open>*\<close> on these numbers: the exact result, rounded once.\<close>

fun num_neg :: "number \<Rightarrow> number" where
  "num_neg (Fin x) = Fin (- x)"
| "num_neg PInf = NInf"
| "num_neg NInf = PInf"
| "num_neg NaN = NaN"

fun num_add :: "number \<Rightarrow> number \<Rightarrow> number" where
  "num_add (Fin x) (Fin y) = to_double (x + y)"
| "num_add NaN y = NaN"
| "num_add x NaN = NaN"
| "num_add PInf NInf = NaN"
| "num_add NInf PInf = NaN"
| "num_add PInf y = PInf"
| "num_add NInf y = NInf"
| "num_add x PInf = PInf"
| "num_add x NInf = NInf"

definition num_sub :: "number \<Rightarrow> number \<Rightarrow> number" where
  "num_sub x y = num_add x (num_neg y)"

fun num_mul :: "number \<Rightarrow> number \<Rightarrow> number" where
  "num_mul (Fin x) (Fin y) = to_double (x * y)"
| "num_mul NaN y = NaN"
| "num_mul x NaN = NaN"
| "num_mul (Fin x) PInf = (if x = 0 then NaN else if 0 < x then PInf else NInf)"
| "num_mul (Fin x) NInf = (if x = 0 then NaN else if 0 < x then NInf else PInf)"
| "num_mul PInf (Fin y) = (if y = 0 then NaN else if 0 < y then PInf else NInf)"
| "num_mul NInf (Fin y) = (if y = 0 then NaN else if 0 < y then NInf else PInf)"
| "num_mul PInf PInf = PInf"
| "num_mul PInf NInf = NInf"
| "num_mul NInf PInf = NInf"
| "num_mul NInf NInf = PInf"

subsection \<open>Cards\<close>

datatype BinOp = Plus | Minus | Times

datatype UnOp = Conj | TimesI | TimesNegI

text \<open>The three card shapes; the field \<open>kind\<close> of the source is the constructor of \<open>Card\<close>.\<close>

record ComplexCard =
  c_id :: string
  c_a :: number
  c_b :: number

record BinaryOpCard =
  b_id :: string
  b_op :: BinOp

record UnaryOpCard =
  u_id :: string
  u_op :: UnOp

datatype Card = CComplex ComplexCard | CBinary BinaryOpCard | CUnary UnaryOpCard

datatype Kind = KComplex | KBinary | KUnary

fun kind :: "Card \<Rightarrow> Kind" where
  "kind (CComplex c) = KComplex"
| "kind (CBinary c) = KBinary"
| "kind (CUnary c) = KUnary"

fun card_id :: "Card \<Rightarrow> string" where
  "card_id (CComplex c) = c_id c"
| "card_id (CBinary c) = b_id c"
| "card_id (CUnary c) = u_id c"

subsection \<open>The random source\<close>

text \<open>
  One call of \<open>Math.random()\<close> yields a value that the source observes in two ways only:
  \<open>Math.floor(x * n)\<close>, an index below \<open>n\<close>, and \<open>x.toString(36).slice(2, 9)\<close>, a
  piece of text. An outcome is therefore a pair of a number, read modulo \<open>n\<close>, and a text.
  The source of randomness is the sequence of the outcomes still to come.
\<close>

datatype rnd = Rnd (scaled: nat) (base36: string)

type_synonym rng = "nat \<Rightarrow> rnd"

definition random :: "rng \<Rightarrow> rnd \<times> rng" where
  "random g = (g 0, \<lambda>n. g (Suc n))"

definition floor_times :: "rnd \<Rightarrow> nat \<Rightarrow> nat" where
  "floor_times r n = scaled r mod n"

definition uid :: "string \<Rightarrow> rng \<Rightarrow> string \<times> rng" where
  "uid prefix g = (let (r, g1) = random g in (prefix @ ''_'' @ base36 r, g1))"

subsection \<open>Gaussian-integer arithmetic\<close>

definition add :: "ComplexCard \<Rightarrow> ComplexCard \<Rightarrow> rng \<Rightarrow> ComplexCard \<times> rng" where
  "add z1 z2 g = (let (i, g1) = uid ''c'' g in
     (\<lparr>c_id = i, c_a = num_add (c_a z1) (c_a z2), c_b = num_add (c_b z1) (c_b z2)\<rparr>, g1))"

definition sub :: "ComplexCard \<Rightarrow> ComplexCard \<Rightarrow> rng \<Rightarrow> ComplexCard \<times> rng" where
  "sub z1 z2 g = (let (i, g1) = uid ''c'' g in
     (\<lparr>c_id = i, c_a = num_sub (c_a z1) (c_a z2), c_b = num_sub (c_b z1) (c_b z2)\<rparr>, g1))"

definition mul :: "ComplexCard \<Rightarrow> ComplexCard \<Rightarrow> rng \<Rightarrow> ComplexCard \<times> rng" where
  "mul z1 z2 g = (let a = num_sub (num_mul (c_a z1) (c_a z2)) (num_mul (c_b z1) (c_b z2));
                      b = num_add (num_mul (c_a z1) (c_b z2)) (num_mul (c_b z1) (c_a z2));
                      (i, g1) = uid ''c'' g
                  in (\<lparr>c_id = i, c_a = a, c_b = b\<rparr>, g1))"

definition conj :: "ComplexCard \<Rightarrow> rng \<Rightarrow> ComplexCard \<times> rng" where
  "conj z g = (let (i, g1) = uid ''c'' g in (\<lparr>c_id = i, c_a = c_a z, c_b = num_neg (c_b z)\<rparr>, g1))"

definition imul :: "ComplexCard \<Rightarrow> number \<Rightarrow> rng \<Rightarrow> ComplexCard \<times> rng" where
  "imul z sign g = (let a = num_mul (num_neg sign) (c_b z);
                        b = num_mul sign (c_a z);
                        (i, g1) = uid ''c'' g
                    in (\<lparr>c_id = i, c_a = a, c_b = b\<rparr>, g1))"

definition isReal :: "ComplexCard \<Rightarrow> bool" where
  "isReal c = (c_b c = Fin 0)"

subsection \<open>Card generation\<close>

definition COMPLEX_RANGE :: "number list" where
  "COMPLEX_RANGE = map Fin [-5, -4, -3, -2, -1, 0, 1, 2, 3, 4, 5]"

definition COMPLEX_RANGE_NON0 :: "number list" where
  "COMPLEX_RANGE_NON0 = map Fin [-5, -4, -3, -2, -1, 1, 2, 3, 4, 5]"

definition sample :: "'a list \<Rightarrow> rng \<Rightarrow> 'a \<times> rng" where
  "sample arr g = (let (r, g1) = random g in (arr ! floor_times r (length arr), g1))"

definition genComplex :: "rng \<Rightarrow> ComplexCard \<times> rng" where
  "genComplex g = (let (a, g1) = sample COMPLEX_RANGE g;
                       (b, g2) = sample COMPLEX_RANGE g1;
                       (i, g3) = uid ''c'' g2
                   in (\<lparr>c_id = i, c_a = a, c_b = b\<rparr>, g3))"

definition genNonRealComplex :: "rng \<Rightarrow> ComplexCard \<times> rng" where
  "genNonRealComplex g = (let (a, g1) = sample COMPLEX_RANGE g;
                              (b, g2) = sample COMPLEX_RANGE_NON0 g1;
                              (i, g3) = uid ''c'' g2
                          in (\<lparr>c_id = i, c_a = a, c_b = b\<rparr>, g3))"

definition genBinary :: "rng \<Rightarrow> BinaryOpCard \<times> rng" where
  "genBinary g = (let (i, g1) = uid ''b'' g;
                      (opr, g2) = sample [Plus, Minus, Times] g1
                  in (\<lparr>b_id = i, b_op = opr\<rparr>, g2))"

definition genUnary :: "rng \<Rightarrow> UnaryOpCard \<times> rng" where
  "genUnary g = (let (i, g1) = uid ''u'' g;
                     (opr, g2) = sample [Conj, TimesI, TimesNegI] g1
                 in (\<lparr>u_id = i, u_op = opr\<rparr>, g2))"

text \<open>\<open>for (let i = 0; i < n; i++) cards.push(gen())\<close>\<close>

primrec push_times :: "nat \<Rightarrow> (rng \<Rightarrow> 'a \<times> rng) \<Rightarrow> 'a list \<Rightarrow> rng \<Rightarrow> 'a list \<times> rng" where
  "push_times 0 gen cards g = (cards, g)"
| "push_times (Suc n) gen cards g =
     (let (c, g1) = gen g in push_times n gen (cards @ [c]) g1)"

text \<open>
  The shuffle loop \<open>for (let i = cards.length - 1; i > 0; i--)\<close>: the first argument is
  the loop variable \<open>i\<close>. The destructuring swap reads both cells before it writes them.
\<close>

primrec shuffle :: "nat \<Rightarrow> 'a list \<Rightarrow> rng \<Rightarrow> 'a list \<times> rng" where
  "shuffle 0 cards g = (cards, g)"
| "shuffle (Suc k) cards g =
     (let (r, g1) = random g;
          j = floor_times r (Suc k + 1);
          i = Suc k;
          new_i = cards ! j;
          new_j = cards ! i
      in shuffle k (cards[i := new_i, j := new_j]) g1)"

definition genHandBatch :: "rng \<Rightarrow> Card list \<times> rng" where
  "genHandBatch g =
     (let (cards1, g1) = push_times 2 (\<lambda>g. let (c, g') = genBinary g in (CBinary c, g')) [] g;
          (cards2, g2) = push_times 4 (\<lambda>g. let (c, g') = genComplex g in (CComplex c, g')) cards1 g1;
          (cards3, g3) = push_times 2 (\<lambda>g. let (c, g') = genUnary g in (CUnary c, g')) cards2 g2
      in shuffle (length cards3 - 1) cards3 g3)"

definition genInitialBoard :: "nat \<Rightarrow> rng \<Rightarrow> ComplexCard list \<times> rng" where
  "genInitialBoard n g = push_times n genNonRealComplex [] g"

subsection \<open>The game state\<close>

record game =
  board :: "ComplexCard list"
  hand :: "Card list"
  stock :: "Card option"
  selectedOp :: "Card option"
  selectedTargets :: "string list"
  moves :: nat
  totalRemoved :: nat
  gameOver :: bool

text \<open>\<open>Array.prototype.findIndex\<close>, with \<open>None\<close> for the source's \<open>-1\<close>.\<close>

fun findIndex :: "('a \<Rightarrow> bool) \<Rightarrow> 'a list \<Rightarrow> nat option" where
  "findIndex p [] = None"
| "findIndex p (x # xs) = (if p x then Some 0 else map_option Suc (findIndex p xs))"

text \<open>\<open>copy.splice(idx, 1)\<close>\<close>

definition splice1 :: "nat \<Rightarrow> 'a list \<Rightarrow> 'a list" where
  "splice1 idx xs = take idx xs @ drop (Suc idx) xs"

definition resetSelections :: "game \<Rightarrow> game" where
  "resetSelections s = s\<lparr>selectedOp := None, selectedTargets := []\<rparr>"

text \<open>Search the hand, then the board, then the stock.\<close>

definition findCardById :: "game \<Rightarrow> string \<Rightarrow> Card option" where
  "findCardById s i =
     (case find (\<lambda>c. card_id c = i) (hand s) of
        Some fromHand \<Rightarrow> Some fromHand
      | None \<Rightarrow>
         (case find (\<lambda>c. c_id c = i) (board s) of
            Some fromBoard \<Rightarrow> Some (CComplex fromBoard)
          | None \<Rightarrow>
             (case stock s of
                Some st \<Rightarrow> if card_id st = i then Some st else None
              | None \<Rightarrow> None)))"

text \<open>The effect that runs after every render: the win check.\<close>

definition checkWin :: "game \<Rightarrow> game" where
  "checkWin s = (if board s = [] \<and> \<not> gameOver s then s\<lparr>gameOver := True\<rparr> else s)"

subsection \<open>The deck and the stock\<close>

definition drawNextBatch :: "game \<Rightarrow> rng \<Rightarrow> game" where
  "drawNextBatch s g = (let (batch, g1) = genHandBatch g in resetSelections (s\<lparr>hand := batch\<rparr>))"

definition toggleStockFromHand :: "game \<Rightarrow> string \<Rightarrow> game" where
  "toggleStockFromHand s cardId =
     (case find (\<lambda>c. card_id c = cardId) (hand s) of
        None \<Rightarrow> s
      | Some cardInHand \<Rightarrow>
         (case stock s of
            Some st \<Rightarrow>
              if card_id st = card_id cardInHand then s\<lparr>stock := None\<rparr>
              else resetSelections
                     (s\<lparr>hand := filter (\<lambda>c. card_id c \<noteq> cardId) (hand s) @ [st],
                        stock := Some cardInHand\<rparr>)
          | None \<Rightarrow>
              resetSelections
                (s\<lparr>hand := filter (\<lambda>c. card_id c \<noteq> cardId) (hand s),
                   stock := Some cardInHand\<rparr>)))"

definition placeStockBack :: "game \<Rightarrow> game" where
  "placeStockBack s =
     (case stock s of
        None \<Rightarrow> s
      | Some st \<Rightarrow> s\<lparr>hand := hand s @ [st], stock := None\<rparr>)"

subsection \<open>Applying an operation\<close>

text \<open>The result card of a unary operator (the \<open>if\<close> chain of \<open>performUnary\<close>).\<close>

definition unaryResult :: "UnaryOpCard \<Rightarrow> ComplexCard \<Rightarrow> rng \<Rightarrow> ComplexCard \<times> rng" where
  "unaryResult opCard target g =
     (if u_op opCard = Conj then conj target g
      else if u_op opCard = TimesI then imul target (Fin 1) g
      else imul target (Fin (- 1)) g)"

definition performUnary :: "game \<Rightarrow> UnaryOpCard \<Rightarrow> ComplexCard \<Rightarrow> rng \<Rightarrow> game" where
  "performUnary s opCard target g =
     (case findIndex (\<lambda>c. c_id c = c_id target) (board s) of
        None \<Rightarrow> s
      | Some idx \<Rightarrow>
         (let (result, g1) = unaryResult opCard target g;
              s1 = s\<lparr>moves := moves s + 1\<rparr>;
              s2 = (if isReal result
                    then s1\<lparr>board := splice1 idx (board s1), totalRemoved := totalRemoved s1 + 1\<rparr>
                    else s1\<lparr>board := (board s1)[idx := result]\<rparr>);
              s3 = resetSelections s2;
              s4 = drawNextBatch s3 g1
          in (case stock s of
                Some st \<Rightarrow> if u_id opCard = card_id st then s4\<lparr>stock := None\<rparr> else s4
              | None \<Rightarrow> s4)))"

text \<open>
  The result card of a binary operator (the \<open>if\<close> chain of \<open>performBinary\<close>). The caller
  passes \<open>selectedOp as BinaryOpCard\<close>, a cast that checks nothing: on a card without the
  operator \<open>+\<close> or \<open>-\<close> the chain falls through to its last branch.
\<close>

definition binaryResult :: "Card \<Rightarrow> ComplexCard \<Rightarrow> ComplexCard \<Rightarrow> rng \<Rightarrow> ComplexCard \<times> rng" where
  "binaryResult opCard left right g =
     (case opCard of
        CBinary bc \<Rightarrow>
          if b_op bc = Plus then add left right g
          else if b_op bc = Minus then sub left right g
          else mul left right g
      | _ \<Rightarrow> mul left right g)"

text \<open>The board update of \<open>performBinary\<close> for a result that is not real.\<close>

definition replaceLeft ::
    "ComplexCard \<Rightarrow> ComplexCard \<Rightarrow> bool \<Rightarrow> ComplexCard \<Rightarrow> ComplexCard list \<Rightarrow> ComplexCard list" where
  "replaceLeft left right rightIsBoard result prev =
     (case findIndex (\<lambda>c. c_id c = c_id left) prev of
        None \<Rightarrow> prev
      | Some li \<Rightarrow>
         (let copy = prev[li := result] in
          if rightIsBoard \<and> c_id right \<noteq> c_id left then
            (case findIndex (\<lambda>c. c_id c = c_id right) copy of
               None \<Rightarrow> copy
             | Some ri \<Rightarrow> splice1 ri copy)
          else copy))"

definition performBinary ::
    "game \<Rightarrow> Card \<Rightarrow> ComplexCard \<Rightarrow> ComplexCard \<Rightarrow> string \<Rightarrow> string \<Rightarrow> rng \<Rightarrow> game" where
  "performBinary s opCard z1 z2 id1 id2 g =
     (let onBoard1 = (findIndex (\<lambda>c. c_id c = id1) (board s) \<noteq> None);
          onBoard2 = (findIndex (\<lambda>c. c_id c = id2) (board s) \<noteq> None);
          swap = (\<not> onBoard1 \<and> onBoard2);
          left = (if swap then z2 else z1);
          right = (if swap then z1 else z2);
          leftIsBoard = (if swap then onBoard2 else onBoard1);
          rightIsBoard = (if swap then onBoard1 else onBoard2)
      in if \<not> leftIsBoard then resetSelections s
         else
          (let (result, g1) = binaryResult opCard left right g;
               s1 = s\<lparr>moves := moves s + 1\<rparr>;
               s2 = (if isReal result then
                       (if leftIsBoard \<and> rightIsBoard
                        then s1\<lparr>board := filter (\<lambda>c. c_id c \<noteq> c_id left \<and> c_id c \<noteq> c_id right) (board s1),
                                totalRemoved := totalRemoved s1 + 2\<rparr>
                        else s1\<lparr>board := filter (\<lambda>c. c_id c \<noteq> c_id left) (board s1),
                                totalRemoved := totalRemoved s1 + 1\<rparr>)
                     else
                       (let s1' = s1\<lparr>board := replaceLeft left right rightIsBoard result (board s1)\<rparr>
                        in if rightIsBoard \<and> c_id right \<noteq> c_id left
                           then s1'\<lparr>totalRemoved := totalRemoved s1' + 1\<rparr>
                           else s1'));
               s3 = (case stock s of
                       Some st \<Rightarrow> if id1 = card_id st then s2\<lparr>stock := None\<rparr> else s2
                     | None \<Rightarrow> s2);
               s4 = resetSelections s3
           in drawNextBatch s4 g1))"

subsection \<open>Selecting a card\<close>

text \<open>\<open>[...prev, id].slice(-2)\<close>\<close>

definition slice_last2 :: "'a list \<Rightarrow> 'a list" where
  "slice_last2 xs = drop (length xs - 2) xs"

definition onSelectCard :: "game \<Rightarrow> string \<Rightarrow> rng \<Rightarrow> game" where
  "onSelectCard s i g =
     (case findCardById s i of
        None \<Rightarrow> s
      | Some card' \<Rightarrow>
         (let isOnBoard = find (\<lambda>c. c_id c = i) (board s) in
          case card' of
            CBinary bc \<Rightarrow> s\<lparr>selectedOp := Some card', selectedTargets := []\<rparr>
          | CUnary uc \<Rightarrow> s\<lparr>selectedOp := Some card', selectedTargets := []\<rparr>
          | CComplex secondCard \<Rightarrow>
             (case selectedOp s of
                None \<Rightarrow>
                  if isOnBoard = None then
                    s\<lparr>selectedTargets :=
                        (if i \<in> set (selectedTargets s)
                         then filter (\<lambda>x. x \<noteq> i) (selectedTargets s)
                         else slice_last2 (selectedTargets s @ [i]))\<rparr>
                  else s
              | Some (CUnary uc) \<Rightarrow>
                 (case isOnBoard of
                    None \<Rightarrow> s
                  | Some target \<Rightarrow> performUnary s uc target g)
              | Some opCard \<Rightarrow>
                  if length (selectedTargets s) = 0 \<and> isOnBoard = None then
                    s\<lparr>selectedTargets := [i]\<rparr>
                  else if length (selectedTargets s) = 1 then
                    (let firstId = selectedTargets s ! 0 in
                     if firstId = i then s
                     else
                      (case findCardById s firstId of
                         None \<Rightarrow> s
                       | Some (CComplex firstCard) \<Rightarrow>
                           performBinary s opCard firstCard secondCard firstId i g
                       | Some _ \<Rightarrow> resetSelections s))
                  else resetSelections s)))"

definition resetGame :: "rng \<Rightarrow> game" where
  "resetGame g =
     (let (b, g1) = genInitialBoard 6 g;
          (h, g2) = genHandBatch g1
      in \<lparr>board = b, hand = h, stock = None, selectedOp = None, selectedTargets = [],
          moves = 0, totalRemoved = 0, gameOver = False\<rparr>)"

text \<open>
  The state after the component is mounted: the initial values of \<open>useState\<close> (a board of
  six cards, an empty hand) followed by the setup effect, which draws the first hand.
\<close>

definition initialGame :: "rng \<Rightarrow> game" where
  "initialGame g =
     (let (b, g1) = genInitialBoard 6 g;
          s0 = \<lparr>board = b, hand = [], stock = None, selectedOp = None, selectedTargets = [],
                moves = 0, totalRemoved = 0, gameOver = False\<rparr>;
          (h, g2) = genHandBatch g1
      in s0\<lparr>hand := h, moves := 0, totalRemoved := 0, selectedOp := None,
            selectedTargets := [], stock := None, gameOver := False\<rparr>)"

text \<open>
  The states the game can be in: the mounted state, and the state after any entry point of
  the interface, each followed by the win check that runs after the render. Every event
  sees its own future of \<open>Math.random()\<close>.
\<close>

inductive reachable :: "game \<Rightarrow> bool" where
  r_init: "reachable (checkWin (initialGame g))"
| r_select: "reachable s \<Longrightarrow> reachable (checkWin (onSelectCard s i g))"
| r_toggle: "reachable s \<Longrightarrow> reachable (checkWin (toggleStockFromHand s i))"
| r_draw: "reachable s \<Longrightarrow> reachable (checkWin (drawNextBatch s g))"
| r_back: "reachable s \<Longrightarrow> reachable (checkWin (placeStockBack s))"
| r_reset: "reachable s \<Longrightarrow> reachable (checkWin (resetGame g))"

subsection \<open>Observables of the interface\<close>

text \<open>The number of cards the player holds: the hand, plus one for an occupied stock.\<close>

definition handPlusStock :: "game \<Rightarrow> nat" where
  "handPlusStock s = length (hand s) + (if stock s = None then 0 else 1)"

text \<open>
  The integers on which a single rounding changes nothing: every integer up to \<open>2^53\<close> in
  absolute value is a double.
\<close>

definition exactInt :: "int \<Rightarrow> bool" where
  "exactInt z = (\<bar>z\<bar> \<le> 2 ^ 53)"

text \<open>No card of the board is real.\<close>

definition nonRealBoard :: "ComplexCard list \<Rightarrow> bool" where
  "nonRealBoard b = (\<forall>c\<in>set b. c_b c \<noteq> Fin 0)"



subsection \<open>A sample game\<close>

text \<open>
  A source of randomness, and a state as it stands after a draw: three cards on the board,
  a hand of 2 binary operators, 4 complex cards and 2 unary operators, an empty stock.
\<close>

definition rng0 :: rng where
  "rng0 n = Rnd n (replicate (Suc n) (CHR ''k''))"

definition exB1 :: ComplexCard where "exB1 = \<lparr>c_id = ''c_board1'', c_a = Fin 3, c_b = Fin 2\<rparr>"

definition exB2 :: ComplexCard where "exB2 = \<lparr>c_id = ''c_board2'', c_a = Fin 1, c_b = Fin (- 2)\<rparr>"

definition exB3 :: ComplexCard where "exB3 = \<lparr>c_id = ''c_board3'', c_a = Fin 0, c_b = Fin 3\<rparr>"

definition exH1 :: ComplexCard where "exH1 = \<lparr>c_id = ''c_hand1'', c_a = Fin (- 3), c_b = Fin (- 2)\<rparr>"

definition exH3 :: ComplexCard where "exH3 = \<lparr>c_id = ''c_hand3'', c_a = Fin 2, c_b = Fin 5\<rparr>"

definition exPlus :: BinaryOpCard where "exPlus = \<lparr>b_id = ''b_plus'', b_op = Plus\<rparr>"

definition exTimesI :: UnaryOpCard where "exTimesI = \<lparr>u_id = ''u_timesi'', u_op = TimesI\<rparr>"

definition exGame :: game where
  "exGame =
     \<lparr>board = [exB1, exB2, exB3],
      hand = [CBinary exPlus,
              CComplex exH1,
              CUnary exTimesI,
              CComplex \<lparr>c_id = ''c_hand2'', c_a = Fin 1, c_b = Fin 0\<rparr>,
              CBinary \<lparr>b_id = ''b_times'', b_op = Times\<rparr>,
              CComplex exH3,
              CUnary \<lparr>u_id = ''u_conj'', u_op = Conj\<rparr>,
              CComplex \<lparr>c_id = ''c_hand4'', c_a = Fin 0, c_b = Fin (- 1)\<rparr>],
      stock = None, selectedOp = None, selectedTargets = [],
      moves = 0, totalRemoved = 0, gameOver = False\<rparr>"

text \<open>The hand card \<open>c_hand1\<close>, respectively the operator \<open>b_plus\<close>, put into the stock.\<close>

definition exStocked :: game where
  "exStocked = toggleStockFromHand exGame ''c_hand1''"

definition exOpStocked :: game where
  "exOpStocked = toggleStockFromHand exGame ''b_plus''"

text \<open>
  The operator \<open>b_plus\<close> selected and the complex card \<open>c_hand1\<close> picked as its first
  operand: from the plain sample game, with the operator in the stock, and with the operand
  in the stock.
\<close>

definition exPicked :: game where
  "exPicked = onSelectCard (onSelectCard exGame ''b_plus'' rng0) ''c_hand1'' rng0"

definition exOpPicked :: game where
  "exOpPicked = onSelectCard (onSelectCard exOpStocked ''b_plus'' rng0) ''c_hand1'' rng0"

definition exStockPicked :: game where
  "exStockPicked = onSelectCard (onSelectCard exStocked ''b_plus'' rng0) ''c_hand1'' rng0"

text \<open>A state two events after the component was mounted.\<close>

definition exReached :: game where
  "exReached = checkWin (onSelectCard (checkWin (initialGame rng0)) ''c_kkk'' rng0)"

lemmas ex_defs = exGame_def exB1_def exB2_def exB3_def exH1_def exH3_def exPlus_def exTimesI_def
  exStocked_def exOpStocked_def

section \<open>Properties\<close>

subsection \<open>Arithmetic\<close>

text \<open>Rounding leaves an integer of at most 53 binary digits, and \<open>2^53\<close> itself, alone.\<close>

lemma bitlen_le: "n < 2 ^ k \<Longrightarrow> bitlen n \<le> k"
proof (induction k arbitrary: n)
  case 0
  then show ?case by (simp add: bitlen.simps)
next
  case (Suc k)
  then have "n div 2 < 2 ^ k" by simp
  from Suc.IH [OF this] show ?case
    by (subst bitlen.simps) simp
qed

lemma to_double_pow53: "to_double (2 ^ 53) = Fin (2 ^ 53)" "to_double (- (2 ^ 53)) = Fin (- (2 ^ 53))"
  by (simp_all add: to_double_def Let_def bitlen.simps)

lemma to_double_exact: "exactInt z \<Longrightarrow> to_double z = Fin z"
proof -
  assume "exactInt z"
  then consider "\<bar>z\<bar> < 2 ^ 53" | "z = 2 ^ 53" | "z = - (2 ^ 53)"
    unfolding exactInt_def by linarith
  then show ?thesis
  proof cases
    case 1
    then have "nat \<bar>z\<bar> < 2 ^ 53"
      by (simp add: nat_less_iff)
    then have "bitlen (nat \<bar>z\<bar>) \<le> 53" by (rule bitlen_le)
    then show ?thesis by (simp add: to_double_def Let_def)
  next
    case 2
    then show ?thesis using to_double_pow53(1) by simp
  next
    case 3
    then show ?thesis using to_double_pow53(2) by simp
  qed
qed





subsection \<open>The hand batch\<close>


lemma kinds_push_times:
  assumes "\<And>g'. kind (fst (gen g')) = k"
  shows "map kind (fst (push_times n gen cards g)) = map kind cards @ replicate n k"
  using assms
  by (induction n arbitrary: cards g) (auto simp: split_def Let_def replicate_append_same)

text \<open>Every draw of the shuffle stays inside the list, so the loop only permutes it.\<close>

lemma floor_times_less: "0 < n \<Longrightarrow> floor_times r n < n"
  by (simp add: floor_times_def)

lemma mset_shuffle:
  "i < length cards \<Longrightarrow> mset (fst (shuffle i cards g)) = mset cards"
proof (induction i arbitrary: cards g)
  case 0
  then show ?case by simp
next
  case (Suc k)
  let ?j = "floor_times (fst (random g)) (Suc k + 1)"
  have "?j < Suc k + 1"
    by (rule floor_times_less) simp
  with Suc.prems have j: "?j < length cards"
    by simp
  let ?cards = "cards[Suc k := cards ! ?j, ?j := cards ! Suc k]"
  have "mset ?cards = mset cards"
    using mset_swap [OF j Suc.prems] by simp
  moreover have "mset (fst (shuffle k ?cards (snd (random g)))) = mset ?cards"
    using Suc.prems by (intro Suc.IH) simp
  ultimately show ?case
    by (simp add: split_def Let_def)
qed

lemma mset_kinds_genHandBatch:
  "mset (map kind (fst (genHandBatch g))) =
     {#KBinary, KBinary, KComplex, KComplex, KComplex, KComplex, KUnary, KUnary#}"
proof -
  define gb where "gb = (\<lambda>g. let (c, g') = genBinary g in (CBinary c, g'))"
  define gc where "gc = (\<lambda>g. let (c, g') = genComplex g in (CComplex c, g'))"
  define gu where "gu = (\<lambda>g. let (c, g') = genUnary g in (CUnary c, g'))"
  have kb: "\<And>g'. kind (fst (gb g')) = KBinary" by (simp add: gb_def split_def Let_def)
  have kc: "\<And>g'. kind (fst (gc g')) = KComplex" by (simp add: gc_def split_def Let_def)
  have ku: "\<And>g'. kind (fst (gu g')) = KUnary" by (simp add: gu_def split_def Let_def)
  define p1 where "p1 = push_times 2 gb [] g"
  define p2 where "p2 = push_times 4 gc (fst p1) (snd p1)"
  define p3 where "p3 = push_times 2 gu (fst p2) (snd p2)"
  have k1: "map kind (fst p1) = replicate 2 KBinary"
    unfolding p1_def using kinds_push_times [of gb KBinary 2 "[]" g] kb by simp
  have k2: "map kind (fst p2) = replicate 2 KBinary @ replicate 4 KComplex"
    unfolding p2_def using kinds_push_times [of gc KComplex 4 "fst p1" "snd p1"] kc k1 by simp
  have k3: "map kind (fst p3) = replicate 2 KBinary @ replicate 4 KComplex @ replicate 2 KUnary"
    unfolding p3_def using kinds_push_times [of gu KUnary 2 "fst p2" "snd p2"] ku k2 by simp
  have l3: "length (fst p3) = 8"
    using arg_cong [OF k3, of length] by simp
  have g: "genHandBatch g = shuffle (length (fst p3) - 1) (fst p3) (snd p3)"
    by (simp add: genHandBatch_def split_def p1_def p2_def p3_def gb_def gc_def gu_def Let_def)
  have "mset (fst (genHandBatch g)) = mset (fst p3)"
    unfolding g using l3 by (intro mset_shuffle) simp
  then have "mset (map kind (fst (genHandBatch g))) = mset (map kind (fst p3))"
    by (metis mset_map)
  then show ?thesis
    by (simp add: k3 numeral_eq_Suc)
qed

lemma length_genHandBatch: "length (fst (genHandBatch g)) = 8"
proof -
  have "size (mset (map kind (fst (genHandBatch g)))) = 8"
    by (simp only: mset_kinds_genHandBatch) simp
  then show ?thesis by simp
qed









lemma count_kind:
  "length (filter (\<lambda>c. kind c = k) h) = count (mset (map kind h)) k"
  by (induction h) auto

text \<open>
  Claim C9. Whatever the random choices are (the operators and coefficients drawn, the
  identifiers, and every index the shuffle draws), \<open>genHandBatch\<close> returns exactly 8 cards:
  2 binary operators, 4 complex cards and 2 unary operators.
\<close>

theorem genHandBatch_composition:
  "length (fst (genHandBatch g)) = 8 \<and>
   mset (map kind (fst (genHandBatch g))) =
     {#KBinary, KBinary, KComplex, KComplex, KComplex, KComplex, KUnary, KUnary#} \<and>
   length (filter (\<lambda>c. kind c = KBinary) (fst (genHandBatch g))) = 2 \<and>
   length (filter (\<lambda>c. kind c = KComplex) (fst (genHandBatch g))) = 4 \<and>
   length (filter (\<lambda>c. kind c = KUnary) (fst (genHandBatch g))) = 2"
  unfolding count_kind
  by (simp only: length_genHandBatch mset_kinds_genHandBatch) simp

subsection \<open>Lists: searching, splicing, filtering by identifier\<close>

lemma findIndex_None_iff: "findIndex p xs = None \<longleftrightarrow> (\<forall>x\<in>set xs. \<not> p x)"
  by (induction xs) auto

lemma findIndex_SomeD:
  "findIndex p xs = Some i \<Longrightarrow> i < length xs \<and> p (xs ! i) \<and> (\<forall>j<i. \<not> p (xs ! j))"
proof (induction xs arbitrary: i)
  case Nil
  then show ?case by simp
next
  case (Cons x xs)
  show ?case
  proof (cases "p x")
    case True
    with Cons.prems show ?thesis by simp
  next
    case False
    with Cons.prems obtain k where k: "findIndex p xs = Some k" "i = Suc k"
      by auto
    from Cons.IH [OF k(1)] False k(2) show ?thesis
      by (auto simp: nth_Cons split: nat.splits)
  qed
qed

lemma find_SomeD: "find p xs = Some x \<Longrightarrow> p x \<and> x \<in> set xs"
  by (induction xs) (auto split: if_splits)

lemma on_board_iff: "findIndex (\<lambda>c. c_id c = i) b \<noteq> None \<longleftrightarrow> i \<in> c_id ` set b"
  by (auto simp: findIndex_None_iff)

lemma length_filter_neq_id:
  "distinct (map f xs) \<Longrightarrow> k \<in> f ` set xs \<Longrightarrow> length (filter (\<lambda>c. f c \<noteq> k) xs) + 1 = length xs"
proof (induction xs)
  case Nil
  then show ?case by simp
next
  case (Cons x xs)
  show ?case
  proof (cases "f x = k")
    case True
    with Cons.prems have "\<forall>c\<in>set xs. f c \<noteq> k" by (force simp: image_iff)
    then have "filter (\<lambda>c. f c \<noteq> k) xs = xs" by (simp add: filter_id_conv)
    with True show ?thesis by simp
  next
    case False
    with Cons show ?thesis by auto
  qed
qed


lemma length_filter_neq_bound:
  "distinct (map f xs) \<Longrightarrow> length xs \<le> length (filter (\<lambda>c. f c \<noteq> k1 \<and> f c \<noteq> k2) xs) + 2"
proof (induction xs)
  case Nil
  then show ?case by simp
next
  case (Cons x xs)
  show ?case
  proof (cases "f x = k1 \<or> f x = k2")
    case False
    with Cons show ?thesis by simp
  next
    case True
    have rest: "length xs \<le> length (filter (\<lambda>c. f c \<noteq> k) xs) + 1" if "distinct (map f xs)" for k
    proof (cases "k \<in> f ` set xs")
      case True
      from length_filter_neq_id [OF that True] show ?thesis by simp
    next
      case False
      then have "filter (\<lambda>c. f c \<noteq> k) xs = xs"
        by (auto simp: filter_id_conv)
      then show ?thesis by simp
    qed
    from Cons.prems have d: "distinct (map f xs)" and nx: "f x \<notin> f ` set xs"
      by auto
    from True show ?thesis
    proof
      assume k1: "f x = k1"
      with nx have "\<forall>c\<in>set xs. f c \<noteq> k1"
        by (force simp: image_iff)
      then have "filter (\<lambda>c. f c \<noteq> k1 \<and> f c \<noteq> k2) xs = filter (\<lambda>c. f c \<noteq> k2) xs"
        by (intro filter_cong) auto
      with rest [OF d, of k2] k1 show ?thesis by simp
    next
      assume k2: "f x = k2"
      with nx have "\<forall>c\<in>set xs. f c \<noteq> k2"
        by (force simp: image_iff)
      then have "filter (\<lambda>c. f c \<noteq> k1 \<and> f c \<noteq> k2) xs = filter (\<lambda>c. f c \<noteq> k1) xs"
        by (intro filter_cong) auto
      with rest [OF d, of k1] k2 show ?thesis by simp
    qed
  qed
qed



lemma length_splice1: "i < length xs \<Longrightarrow> length (splice1 i xs) + 1 = length xs"
  by (simp add: splice1_def)

lemma set_splice1: "set (splice1 i xs) \<subseteq> set xs"
  by (auto simp: splice1_def dest: in_set_takeD in_set_dropD)

subsection \<open>What the small state updates leave alone\<close>

lemma resetSelections_fields:
  "board (resetSelections s) = board s"
  "hand (resetSelections s) = hand s"
  "stock (resetSelections s) = stock s"
  "moves (resetSelections s) = moves s"
  "totalRemoved (resetSelections s) = totalRemoved s"
  "gameOver (resetSelections s) = gameOver s"
  "selectedOp (resetSelections s) = None"
  "selectedTargets (resetSelections s) = []"
  by (simp_all add: resetSelections_def)

lemma drawNextBatch_fields:
  "board (drawNextBatch s g) = board s"
  "hand (drawNextBatch s g) = fst (genHandBatch g)"
  "stock (drawNextBatch s g) = stock s"
  "selectedOp (drawNextBatch s g) = None"
  "selectedTargets (drawNextBatch s g) = []"
  "moves (drawNextBatch s g) = moves s"
  "totalRemoved (drawNextBatch s g) = totalRemoved s"
  "gameOver (drawNextBatch s g) = gameOver s"
  by (simp_all add: drawNextBatch_def resetSelections_def split_def)

lemma stock_case_fields:
  "board (case st of None \<Rightarrow> s2 | Some c \<Rightarrow> if P c then s2\<lparr>stock := None\<rparr> else s2) = board s2"
  "moves (case st of None \<Rightarrow> s2 | Some c \<Rightarrow> if P c then s2\<lparr>stock := None\<rparr> else s2) = moves s2"
  "totalRemoved (case st of None \<Rightarrow> s2 | Some c \<Rightarrow> if P c then s2\<lparr>stock := None\<rparr> else s2) = totalRemoved s2"
  "gameOver (case st of None \<Rightarrow> s2 | Some c \<Rightarrow> if P c then s2\<lparr>stock := None\<rparr> else s2) = gameOver s2"
  by (simp_all split: option.splits)

lemmas eval_defs = performBinary_def performUnary_def binaryResult_def unaryResult_def
  add_def sub_def mul_def conj_def imul_def uid_def random_def rng0_def isReal_def
  num_sub_def to_double_exact exactInt_def
  replaceLeft_def splice1_def resetSelections_def drawNextBatch_fields Let_def split_def

subsection \<open>The deck and the stock\<close>

text \<open>
  Claim C1, as the source has it. With pairwise distinct identifiers in the hand and a
  stocked card that is not in the hand, \<open>toggleStockFromHand\<close> and \<open>placeStockBack\<close> leave
  the number of cards in hand and stock unchanged (so it stays 8 when it was 8).
  \<open>drawNextBatch\<close> replaces the hand by exactly 8 new cards and leaves the stock alone:
  afterwards the hand and the stock hold 8 cards when the stock is empty and 9 when a card
  is stocked.
\<close>

theorem hand_plus_stock_after_deck_calls:
  assumes "distinct (map card_id (hand s))"
    and "\<forall>st. stock s = Some st \<longrightarrow> card_id st \<notin> card_id ` set (hand s)"
  shows "handPlusStock (toggleStockFromHand s i) = handPlusStock s \<and>
         handPlusStock (placeStockBack s) = handPlusStock s \<and>
         length (hand (drawNextBatch s g)) = 8 \<and>
         stock (drawNextBatch s g) = stock s \<and>
         handPlusStock (drawNextBatch s g) = (if stock s = None then 8 else 9)"
proof -
  have toggle: "handPlusStock (toggleStockFromHand s i) = handPlusStock s"
  proof (cases "find (\<lambda>c. card_id c = i) (hand s)")
    case None
    then show ?thesis by (simp add: toggleStockFromHand_def)
  next
    case (Some cardInHand)
    note found = Some
    then have mem: "i \<in> card_id ` set (hand s)" and cid: "card_id cardInHand = i"
        and inh: "cardInHand \<in> set (hand s)"
      using find_SomeD [OF Some] by auto
    have len: "length (filter (\<lambda>c. card_id c \<noteq> i) (hand s)) + 1 = length (hand s)"
      using length_filter_neq_id [OF assms(1) mem] .
    show ?thesis
    proof (cases "stock s")
      case None
      with found len show ?thesis
        by (simp add: toggleStockFromHand_def handPlusStock_def resetSelections_def)
    next
      case (Some st)
      with assms(2) inh cid have "card_id st \<noteq> card_id cardInHand"
        by (metis imageI)
      with Some found len show ?thesis
        by (simp add: toggleStockFromHand_def handPlusStock_def resetSelections_def)
    qed
  qed
  have putback: "handPlusStock (placeStockBack s) = handPlusStock s"
    by (simp add: placeStockBack_def handPlusStock_def split: option.splits)
  have draw: "length (hand (drawNextBatch s g)) = 8"
    by (simp add: drawNextBatch_fields length_genHandBatch)
  show ?thesis
    using toggle putback draw
    by (simp add: handPlusStock_def drawNextBatch_fields)
qed

text \<open>The three deck operations on the sample game with \<open>c_hand1\<close> stocked.\<close>

theorem hand_plus_stock_after_deck_calls_witness:
  "distinct (map card_id (hand exStocked)) \<and>
   stock exStocked = Some (CComplex exH1) \<and>
   card_id (CComplex exH1) \<notin> card_id ` set (hand exStocked) \<and>
   handPlusStock (toggleStockFromHand exStocked ''b_plus'') = handPlusStock exStocked \<and>
   handPlusStock (placeStockBack exStocked) = handPlusStock exStocked \<and>
   length (hand (drawNextBatch exStocked rng0)) = 8 \<and>
   stock (drawNextBatch exStocked rng0) = stock exStocked \<and>
   handPlusStock (drawNextBatch exStocked rng0) = 9"
proof -
  have h: "distinct (map card_id (hand exStocked))"
    "stock exStocked = Some (CComplex exH1)"
    "card_id (CComplex exH1) \<notin> card_id ` set (hand exStocked)"
    by (simp_all add: ex_defs toggleStockFromHand_def resetSelections_def)
  from h(2,3) have "\<forall>st. stock exStocked = Some st \<longrightarrow> card_id st \<notin> card_id ` set (hand exStocked)"
    by simp
  from hand_plus_stock_after_deck_calls [OF h(1) this, of "''b_plus''" rng0] h show ?thesis
    by simp
qed

text \<open>
  The sum is not 8 after every draw: with \<open>c_hand1\<close> in the stock (7 cards in hand, one in
  the stock), drawing the next batch leaves 8 cards in hand and one in the stock.
\<close>

theorem hand_plus_stock_nine_after_draw:
  "handPlusStock exGame = 8 \<and> handPlusStock exStocked = 8 \<and>
   stock exStocked = Some (CComplex exH1) \<and>
   handPlusStock (drawNextBatch exStocked rng0) = 9"
  by (simp add: handPlusStock_def ex_defs toggleStockFromHand_def resetSelections_def
      drawNextBatch_fields length_genHandBatch)




subsection \<open>Binary operations\<close>

lemma performBinary_not_applied:
  assumes "id1 \<notin> c_id ` set (board s)" and "id2 \<notin> c_id ` set (board s)"
  shows "performBinary s opCard z1 z2 id1 id2 g = resetSelections s"
proof -
  have "findIndex (\<lambda>c. c_id c = id1) (board s) = None"
    and "findIndex (\<lambda>c. c_id c = id2) (board s) = None"
    using assms by (auto simp: findIndex_None_iff)
  then show ?thesis
    by (simp add: performBinary_def Let_def)
qed

text \<open>
  Claim C6. When neither chosen operand is on the board, \<open>performBinary\<close> only clears the
  selection: the board, the hand, the stock, \<open>moves\<close>, \<open>totalRemoved\<close> and \<open>gameOver\<close> are
  what they were.
\<close>

theorem performBinary_no_board_operand:
  assumes "id1 \<notin> c_id ` set (board s)" and "id2 \<notin> c_id ` set (board s)"
  shows "performBinary s opCard z1 z2 id1 id2 g = s\<lparr>selectedOp := None, selectedTargets := []\<rparr> \<and>
         board (performBinary s opCard z1 z2 id1 id2 g) = board s \<and>
         hand (performBinary s opCard z1 z2 id1 id2 g) = hand s \<and>
         stock (performBinary s opCard z1 z2 id1 id2 g) = stock s \<and>
         moves (performBinary s opCard z1 z2 id1 id2 g) = moves s \<and>
         totalRemoved (performBinary s opCard z1 z2 id1 id2 g) = totalRemoved s"
  using performBinary_not_applied [OF assms, of opCard z1 z2 g]
  by (simp add: resetSelections_def)

text \<open>Two hand cards as the operands of \<open>+\<close> in the sample game.\<close>

theorem performBinary_no_board_operand_witness:
  "''c_hand1'' \<notin> c_id ` set (board exGame) \<and> ''c_hand3'' \<notin> c_id ` set (board exGame) \<and>
   performBinary exGame (CBinary exPlus) exH1 exH3 ''c_hand1'' ''c_hand3'' rng0
     = exGame\<lparr>selectedOp := None, selectedTargets := []\<rparr> \<and>
   moves (performBinary exGame (CBinary exPlus) exH1 exH3 ''c_hand1'' ''c_hand3'' rng0) = 0"
proof -
  have h: "''c_hand1'' \<notin> c_id ` set (board exGame)" "''c_hand3'' \<notin> c_id ` set (board exGame)"
    by (simp_all add: ex_defs)
  have "moves exGame = 0"
    by (simp add: ex_defs)
  with performBinary_no_board_operand [OF h, of "CBinary exPlus" exH1 exH3 rng0] h
  show ?thesis by simp
qed

lemma replaceLeft_length:
  "length (replaceLeft left right rb result prev) \<le> length prev \<and>
   length prev \<le> length (replaceLeft left right rb result prev) + 1"
proof (cases "findIndex (\<lambda>c. c_id c = c_id left) prev")
  case None
  then show ?thesis by (simp add: replaceLeft_def Let_def)
next
  case (Some li)
  let ?copy = "prev[li := result]"
  show ?thesis
  proof (cases "findIndex (\<lambda>c. c_id c = c_id right) ?copy")
    case None
    with Some show ?thesis by (simp add: replaceLeft_def Let_def)
  next
    case ri: (Some ri)
    from findIndex_SomeD [OF ri] length_splice1 [of ri ?copy]
    have "length (splice1 ri ?copy) + 1 = length prev" by simp
    with Some ri show ?thesis by (simp add: replaceLeft_def Let_def)
  qed
qed



lemma performBinary_eq:
  fixes s opCard z1 z2 id1 id2 g
  defines "on1 \<equiv> id1 \<in> c_id ` set (board s)"
  defines "on2 \<equiv> id2 \<in> c_id ` set (board s)"
  defines "left \<equiv> (if \<not> on1 \<and> on2 then z2 else z1)"
  defines "right \<equiv> (if \<not> on1 \<and> on2 then z1 else z2)"
  defines "res \<equiv> binaryResult opCard left right g"
  defines "s2 \<equiv> (if isReal (fst res) then
              (if on1 \<and> on2
               then s\<lparr>moves := moves s + 1,
                      board := filter (\<lambda>c. c_id c \<noteq> c_id left \<and> c_id c \<noteq> c_id right) (board s),
                      totalRemoved := totalRemoved s + 2\<rparr>
               else s\<lparr>moves := moves s + 1,
                      board := filter (\<lambda>c. c_id c \<noteq> c_id left) (board s),
                      totalRemoved := totalRemoved s + 1\<rparr>)
            else s\<lparr>moves := moves s + 1,
                   board := replaceLeft left right (on1 \<and> on2) (fst res) (board s),
                   totalRemoved := totalRemoved s +
                      (if (on1 \<and> on2) \<and> c_id right \<noteq> c_id left then 1 else 0)\<rparr>)"
  assumes applied: "on1 \<or> on2"
  shows "performBinary s opCard z1 z2 id1 id2 g =
           drawNextBatch (resetSelections
             (case stock s of None \<Rightarrow> s2
              | Some st \<Rightarrow> if id1 = card_id st then s2\<lparr>stock := None\<rparr> else s2)) (snd res)"
proof -
  have f1: "(findIndex (\<lambda>c. c_id c = id1) (board s) \<noteq> None) = on1"
    and f2: "(findIndex (\<lambda>c. c_id c = id2) (board s) \<noteq> None) = on2"
    unfolding on1_def on2_def by (rule on_board_iff)+
  show ?thesis
  proof (cases "\<not> on1 \<and> on2")
    case True
    then show ?thesis
      unfolding performBinary_def f1 f2 s2_def res_def left_def right_def
      by (simp add: Let_def split_def split: option.split)
  next
    case False
    with applied have "on1" by blast
    then show ?thesis
      unfolding performBinary_def f1 f2 s2_def res_def left_def right_def
      by (simp add: Let_def split_def split: option.split)
  qed
qed

lemma performBinary_fields:
  fixes s opCard z1 z2 id1 id2 g
  defines "on1 \<equiv> id1 \<in> c_id ` set (board s)"
  defines "on2 \<equiv> id2 \<in> c_id ` set (board s)"
  defines "left \<equiv> (if \<not> on1 \<and> on2 then z2 else z1)"
  defines "right \<equiv> (if \<not> on1 \<and> on2 then z1 else z2)"
  defines "result \<equiv> fst (binaryResult opCard left right g)"
  defines "s' \<equiv> performBinary s opCard z1 z2 id1 id2 g"
  assumes applied: "on1 \<or> on2"
  shows "board s' =
           (if isReal result then
              (if on1 \<and> on2
               then filter (\<lambda>c. c_id c \<noteq> c_id left \<and> c_id c \<noteq> c_id right) (board s)
               else filter (\<lambda>c. c_id c \<noteq> c_id left) (board s))
            else replaceLeft left right (on1 \<and> on2) result (board s))"
    and "moves s' = moves s + 1"
    and "totalRemoved s' = totalRemoved s +
           (if isReal result then (if on1 \<and> on2 then 2 else 1)
            else if (on1 \<and> on2) \<and> c_id right \<noteq> c_id left then 1 else 0)"
    and "stock s' = (case stock s of None \<Rightarrow> None
                     | Some st \<Rightarrow> if id1 = card_id st then None else Some st)"
    and "hand s' = fst (genHandBatch (snd (binaryResult opCard left right g)))"
proof -
  note eq = performBinary_eq [of id1 s id2, OF applied [unfolded on1_def on2_def], of opCard z1 z2 g,
      folded on1_def on2_def, folded left_def right_def, folded result_def]
  show "board s' =
           (if isReal result then
              (if on1 \<and> on2
               then filter (\<lambda>c. c_id c \<noteq> c_id left \<and> c_id c \<noteq> c_id right) (board s)
               else filter (\<lambda>c. c_id c \<noteq> c_id left) (board s))
            else replaceLeft left right (on1 \<and> on2) result (board s))"
    unfolding s'_def eq
    by (simp add: drawNextBatch_fields resetSelections_fields stock_case_fields)
  show "moves s' = moves s + 1"
    unfolding s'_def eq
    by (simp add: drawNextBatch_fields resetSelections_fields stock_case_fields)
  show "totalRemoved s' = totalRemoved s +
           (if isReal result then (if on1 \<and> on2 then 2 else 1)
            else if (on1 \<and> on2) \<and> c_id right \<noteq> c_id left then 1 else 0)"
    unfolding s'_def eq
    by (simp add: drawNextBatch_fields resetSelections_fields stock_case_fields)
  show "stock s' = (case stock s of None \<Rightarrow> None
                     | Some st \<Rightarrow> if id1 = card_id st then None else Some st)"
    unfolding s'_def eq
    by (simp add: drawNextBatch_fields resetSelections_fields split: option.split)
  show "hand s' = fst (genHandBatch (snd (binaryResult opCard left right g)))"
    unfolding s'_def eq
    by (simp add: drawNextBatch_fields)
qed








lemma exOpPicked_eq:
  "exOpPicked = exOpStocked\<lparr>selectedOp := Some (CBinary exPlus), selectedTargets := [''c_hand1'']\<rparr>"
  by (simp add: exOpPicked_def ex_defs onSelectCard_def findCardById_def
      toggleStockFromHand_def resetSelections_def)

lemma exStockPicked_eq:
  "exStockPicked = exStocked\<lparr>selectedOp := Some (CBinary exPlus), selectedTargets := [''c_hand1'']\<rparr>"
  by (simp add: exStockPicked_def ex_defs onSelectCard_def findCardById_def
      toggleStockFromHand_def resetSelections_def)

text \<open>
  Claim C3 on the sample game. \<open>performBinary\<close> compares the stock with the identifier of
  the first operand, where \<open>performUnary\<close> compares it with that of the operator card. With
  the operator \<open>b_plus\<close> stocked and used, the operation is applied and the stock still
  holds the operator; with the operand \<open>c_hand1\<close> stocked and picked first, the operation
  with the operator from the hand empties the stock.
\<close>

theorem binary_clears_stock_of_first_operand:
  "stock exOpPicked = Some (CBinary exPlus) \<and> selectedOp exOpPicked = Some (CBinary exPlus) \<and>
   moves (onSelectCard exOpPicked ''c_board1'' rng0) = moves exOpPicked + 1 \<and>
   board (onSelectCard exOpPicked ''c_board1'' rng0) = [exB2, exB3] \<and>
   stock (onSelectCard exOpPicked ''c_board1'' rng0) = Some (CBinary exPlus) \<and>
   stock exStockPicked = Some (CComplex exH1) \<and> selectedOp exStockPicked = Some (CBinary exPlus) \<and>
   moves (onSelectCard exStockPicked ''c_board1'' rng0) = moves exStockPicked + 1 \<and>
   stock (onSelectCard exStockPicked ''c_board1'' rng0) = None"
  unfolding exOpPicked_eq exStockPicked_eq
  by (simp add: ex_defs onSelectCard_def findCardById_def toggleStockFromHand_def eval_defs)

subsection \<open>The board never grows and never holds a real card\<close>

text \<open>
  Claim C7. Applying a unary or a binary operation never makes the board longer: a unary
  operation keeps its length or shortens it by 1, and a binary operation keeps it or
  shortens it, by at most 2 when the identifiers on the board are pairwise distinct.
\<close>

theorem board_never_grows:
  "length (board (performUnary s uc target g)) \<le> length (board s) \<and>
   length (board s) \<le> length (board (performUnary s uc target g)) + 1 \<and>
   length (board (performBinary s opCard z1 z2 id1 id2 g)) \<le> length (board s) \<and>
   (distinct (map c_id (board s)) \<longrightarrow>
      length (board s) \<le> length (board (performBinary s opCard z1 z2 id1 id2 g)) + 2)"
proof -
  let ?u = "performUnary s uc target g"
  let ?b = "performBinary s opCard z1 z2 id1 id2 g"
  have unary: "length (board ?u) \<le> length (board s) \<and> length (board s) \<le> length (board ?u) + 1"
  proof (cases "findIndex (\<lambda>c. c_id c = c_id target) (board s)")
    case None
    then show ?thesis by (simp add: performUnary_def)
  next
    case (Some idx)
    from findIndex_SomeD [OF Some] have "idx < length (board s)" by simp
    from length_splice1 [OF this] Some show ?thesis
      by (simp add: performUnary_def Let_def split_def drawNextBatch_fields
          resetSelections_fields split: option.split)
  qed
  let ?ids = "c_id ` set (board s)"
  have binary: "length (board ?b) \<le> length (board s) \<and>
       (distinct (map c_id (board s)) \<longrightarrow> length (board s) \<le> length (board ?b) + 2)"
  proof (cases "id1 \<in> ?ids \<or> id2 \<in> ?ids")
    case False
    then have "?b = s\<lparr>selectedOp := None, selectedTargets := []\<rparr>"
      by (simp add: performBinary_not_applied resetSelections_def)
    then show ?thesis by simp
  next
    case True
    note f = performBinary_fields(1) [of id1 s id2 opCard z1 z2 g, OF True]
    have rl: "length (replaceLeft l r rb res (board s)) \<le> length (board s)"
      "length (board s) \<le> length (replaceLeft l r rb res (board s)) + 2" for l r rb res
      using replaceLeft_length [of l r rb res "board s"] by auto
    have fb: "length (board s)
        \<le> length (filter (\<lambda>c. c_id c \<noteq> k1 \<and> c_id c \<noteq> k2) (board s)) + 2"
      if "distinct (map c_id (board s))" for k1 k2
      using that by (rule length_filter_neq_bound)
    have fb1: "length (board s) \<le> length (filter (\<lambda>c. c_id c \<noteq> k) (board s)) + 2"
      if "distinct (map c_id (board s))" for k
      using fb [OF that, of k k] by simp
    show ?thesis
      unfolding f using rl fb fb1 by simp
  qed
  from unary binary show ?thesis by blast
qed

text \<open>\<open>\<times>i\<close> on the card \<open>3i\<close> and \<open>+\<close> on two board cards, both with a real result.\<close>

theorem board_never_grows_witness:
  "distinct (map c_id (board exGame)) \<and> length (board exGame) = 3 \<and>
   length (board (performUnary exGame exTimesI exB3 rng0)) = 2 \<and>
   length (board (performBinary exGame (CBinary exPlus) exB1 exB2 ''c_board1'' ''c_board2'' rng0)) = 1 \<and>
   length (board (performBinary exGame (CBinary exPlus) exB1 exB2 ''c_board1'' ''c_board2'' rng0))
     \<le> length (board exGame) \<and>
   length (board exGame)
     \<le> length (board (performBinary exGame (CBinary exPlus) exB1 exB2 ''c_board1'' ''c_board2'' rng0)) + 2"
  using board_never_grows [of exGame exTimesI exB3 rng0 "CBinary exPlus" exB1 exB2
      "''c_board1''" "''c_board2''"]
  by (simp add: ex_defs eval_defs)

lemma genNonRealComplex_nonreal: "c_b (fst (genNonRealComplex g)) \<noteq> Fin 0"
proof -
  have "COMPLEX_RANGE_NON0 ! floor_times r (length COMPLEX_RANGE_NON0) \<in> set COMPLEX_RANGE_NON0" for r
    by (intro nth_mem floor_times_less) (simp add: COMPLEX_RANGE_NON0_def)
  moreover have "Fin 0 \<notin> set COMPLEX_RANGE_NON0"
    by (simp add: COMPLEX_RANGE_NON0_def)
  ultimately have "COMPLEX_RANGE_NON0 ! floor_times r (length COMPLEX_RANGE_NON0) \<noteq> Fin 0" for r
    by metis
  then show ?thesis
    by (simp add: genNonRealComplex_def sample_def split_def Let_def)
qed

lemma push_times_all:
  assumes "\<And>g'. P (fst (gen g'))"
  shows "\<forall>c\<in>set cards. P c \<Longrightarrow> \<forall>c\<in>set (fst (push_times n gen cards g)). P c"
proof (induction n arbitrary: cards g)
  case 0
  then show ?case by simp
next
  case (Suc n)
  have "\<forall>c\<in>set (cards @ [fst (gen g)]). P c"
    using Suc.prems assms by simp
  from Suc.IH [OF this] show ?case
    by (simp add: split_def Let_def)
qed

lemma genInitialBoard_nonreal: "nonRealBoard (fst (genInitialBoard n g))"
  unfolding nonRealBoard_def genInitialBoard_def
  by (rule push_times_all) (simp_all add: genNonRealComplex_nonreal)

lemma nonReal_splice1: "nonRealBoard b \<Longrightarrow> nonRealBoard (splice1 i b)"
  using set_splice1 [of i b] by (auto simp: nonRealBoard_def)

lemma nonReal_update: "nonRealBoard b \<Longrightarrow> c_b r \<noteq> Fin 0 \<Longrightarrow> nonRealBoard (b[i := r])"
  by (auto simp: nonRealBoard_def dest: set_update_subset_insert [THEN subsetD])

lemma nonReal_filter: "nonRealBoard b \<Longrightarrow> nonRealBoard (filter P b)"
  by (auto simp: nonRealBoard_def)

lemma nonReal_replaceLeft:
  "nonRealBoard b \<Longrightarrow> \<not> isReal r \<Longrightarrow> nonRealBoard (replaceLeft left right rb r b)"
  by (simp add: replaceLeft_def Let_def isReal_def nonReal_splice1 nonReal_update
      split: option.split)

lemma nonReal_performUnary:
  assumes "nonRealBoard (board s)"
  shows "nonRealBoard (board (performUnary s uc target g))"
proof (cases "findIndex (\<lambda>c. c_id c = c_id target) (board s)")
  case None
  with assms show ?thesis by (simp add: performUnary_def)
next
  case (Some idx)
  with assms show ?thesis
    by (simp add: performUnary_def Let_def split_def drawNextBatch_fields isReal_def
        resetSelections_fields nonReal_splice1 nonReal_update split: option.split)
qed

lemma nonReal_performBinary:
  assumes "nonRealBoard (board s)"
  shows "nonRealBoard (board (performBinary s opCard z1 z2 id1 id2 g))"
proof (cases "id1 \<in> c_id ` set (board s) \<or> id2 \<in> c_id ` set (board s)")
  case False
  then have "performBinary s opCard z1 z2 id1 id2 g = s\<lparr>selectedOp := None, selectedTargets := []\<rparr>"
    by (simp add: performBinary_not_applied resetSelections_def)
  with assms show ?thesis by simp
next
  case True
  show ?thesis
    unfolding performBinary_fields(1) [of id1 s id2 opCard z1 z2 g, OF True]
    using assms by (simp add: nonReal_filter nonReal_replaceLeft)
qed

lemma board_onSelectCard:
  "board (onSelectCard s i g) = board s \<or>
   (\<exists>uc target. board (onSelectCard s i g) = board (performUnary s uc target g)) \<or>
   (\<exists>opCard z1 z2 id1. board (onSelectCard s i g) = board (performBinary s opCard z1 z2 id1 i g))"
  by (simp add: onSelectCard_def Let_def resetSelections_fields
      split: option.split Card.split) blast

lemma nonReal_onSelectCard:
  assumes "nonRealBoard (board s)"
  shows "nonRealBoard (board (onSelectCard s i g))"
  using board_onSelectCard [of s i g] assms
  by (auto simp: nonReal_performUnary nonReal_performBinary)

lemma board_checkWin: "board (checkWin s) = board s"
  by (simp add: checkWin_def)

lemma board_deck:
  "board (toggleStockFromHand s i) = board s" "board (placeStockBack s) = board s"
  by (simp_all add: toggleStockFromHand_def placeStockBack_def resetSelections_def
      split: option.split)

lemma board_start:
  "board (initialGame g) = fst (genInitialBoard 6 g)" "board (resetGame g) = fst (genInitialBoard 6 g)"
  by (simp_all add: initialGame_def resetGame_def split_def Let_def)

text \<open>
  Claim C8. \<open>genNonRealComplex\<close> only produces cards with a nonzero imaginary part, and in
  every state the game can reach every card on the board has a nonzero imaginary part: a
  real result is removed from the board by the transition that computes it.
\<close>

theorem board_never_real:
  "c_b (fst (genNonRealComplex g)) \<noteq> Fin 0 \<and>
   (reachable s \<longrightarrow> (\<forall>c\<in>set (board s). c_b c \<noteq> Fin 0))"
proof -
  have "nonRealBoard (board s)" if "reachable s"
    using that
    by (induction rule: reachable.induct)
       (simp_all add: board_checkWin board_deck board_start drawNextBatch_fields
         genInitialBoard_nonreal nonReal_onSelectCard)
  then show ?thesis
    using genNonRealComplex_nonreal by (simp add: nonRealBoard_def)
qed

theorem board_never_real_witness:
  "reachable exReached \<and> Fin 0 \<notin> c_b ` set (board exReached)"
proof -
  have r: "reachable exReached"
    unfolding exReached_def by (intro reachable.intros)
  with board_never_real [of rng0 exReached] show ?thesis
    by auto
qed

subsection \<open>Selecting the same operand twice\<close>

text \<open>
  Claim C10. With a binary operator selected and exactly one target recorded, selecting the
  card of that target again (a complex card, or a card that no longer exists) changes
  nothing: no operation is applied, and operator and target stay selected.
\<close>

theorem same_target_twice_ignored:
  assumes "selectedOp s = Some (CBinary bc)" and "selectedTargets s = [i]"
    and "\<forall>c. findCardById s i = Some c \<longrightarrow> kind c = KComplex"
  shows "onSelectCard s i g = s"
proof (cases "findCardById s i")
  case None
  then show ?thesis by (simp add: onSelectCard_def)
next
  case (Some c)
  with assms(3) obtain z where "c = CComplex z"
    by (cases c) auto
  with Some assms(1,2) show ?thesis
    by (simp add: onSelectCard_def)
qed

lemma exPicked_eq:
  "exPicked = exGame\<lparr>selectedOp := Some (CBinary exPlus), selectedTargets := [''c_hand1'']\<rparr>"
  by (simp add: exPicked_def ex_defs onSelectCard_def findCardById_def)

theorem same_target_twice_ignored_witness:
  "selectedOp exPicked = Some (CBinary exPlus) \<and> selectedTargets exPicked = [''c_hand1''] \<and>
   findCardById exPicked ''c_hand1'' = Some (CComplex exH1) \<and>
   onSelectCard exPicked ''c_hand1'' rng0 = exPicked"
proof -
  have h: "selectedOp exPicked = Some (CBinary exPlus)" "selectedTargets exPicked = [''c_hand1'']"
    "findCardById exPicked ''c_hand1'' = Some (CComplex exH1)"
    by (simp_all add: exPicked_eq) (simp add: ex_defs findCardById_def)
  from h(3) have "\<forall>c. findCardById exPicked ''c_hand1'' = Some c \<longrightarrow> kind c = KComplex"
    by simp
  from same_target_twice_ignored [OF h(1,2) this, of rng0] h show ?thesis
    by simp
qed

end
